theory Spec2Isabelle
  imports Main "HOL-Library.Sublist"
begin

section \<open>The esbuild dependency pre-bundling plugin (esbuildDepPlugin.ts)\<close>

text \<open>
  The plugin registers resolve and load callbacks with the bundler. Each callback is
  modelled as a function of the plugin's construction-time inputs (the record \<open>env\<close>)
  and of the event's arguments. A callback that returns nothing (JavaScript
  \<open>undefined\<close>) returns \<open>None\<close>; a callback that throws, or whose promise rejects,
  returns \<open>Inl\<close> of an \<open>error\<close>. Every call of one of the two resolvers made by
  \<open>config.createResolver\<close> is recorded in a call log, so that "the resolver is not
  invoked" is a statement about the log.
\<close>

subsection \<open>Data\<close>

datatype error =
    InvalidArgType
  | NotIterable
  | Rejected string

text \<open>
  \<open>InvalidArgType\<close>: Node's \<open>path.relative\<close> throws a TypeError when its second
  argument is \<open>undefined\<close>. \<open>NotIterable\<close>: the array destructuring
  \<open>const [imports, exports] = data\<close> throws a TypeError when \<open>data\<close> is
  \<open>undefined\<close>. \<open>Rejected\<close>: a resolver or the file system rejected.
\<close>

text \<open>
  \<open>ExportsData\<close>: the tuple \<open>[imports, exports, ...]\<close> of the lexer with the
  optional property \<open>hasReExports\<close> (absent is \<open>False\<close>). Only the length of
  \<open>imports\<close> is read.
\<close>

record exports_data =
  data_imports :: "string list"
  data_exports :: "string list"
  hasReExports :: bool

text \<open>
  The object a resolve callback returns: \<open>{ path, external?, namespace? }\<close>. An absent
  \<open>external\<close> is \<open>False\<close>, an absent \<open>namespace\<close> is \<open>None\<close>.
\<close>

record resolve_result =
  path :: string
  external :: bool
  namespace :: "string option"

text \<open>The arguments of a resolve event; the bundler passes \<open>''''\<close> for "no importer".\<close>

record resolve_args =
  arg_path :: string
  arg_importer :: string
  arg_kind :: string
  arg_namespace :: string
  arg_resolveDir :: string

text \<open>The object a load callback returns: \<open>{ loader?, contents, resolveDir? }\<close>.\<close>

record load_result =
  loader :: "string option"
  contents :: string
  resolveDir :: "string option"

text \<open>
  What the plugin passes to a resolver as importer: \<open>undefined\<close>, a string, or, when
  the importer's name is a member that the registry object inherits from
  \<open>Object.prototype\<close>, that member (a function or object, named here by its key).
\<close>

datatype importer_value =
    ImporterUndefined
  | ImporterString string
  | ImporterInherited string

text \<open>
  A resolver made by \<open>config.createResolver\<close>:
  \<open>(id, importer?, aliasOnly?, ssr?) => Promise<string | undefined>\<close>.
\<close>

type_synonym resolver =
  "string \<Rightarrow> importer_value \<Rightarrow> bool option \<Rightarrow> bool option \<Rightarrow> error + string option"

text \<open>
  One recorded resolver call: which resolver (\<open>True\<close> for \<open>_resolveRequire\<close>) and
  its arguments.
\<close>

datatype resolver_call =
  ResolverCall bool string importer_value "bool option" "bool option"

type_synonym 'a logged = "resolver_call list \<times> (error + 'a)"

text \<open>
  The plugin's inputs. \<open>qualified_deps\<close> (the argument \<open>qualified\<close>) and
  \<open>exportsData\<close> are the two \<open>Record<string, _>\<close> arguments, a lookup of a
  missing key being \<open>None\<close>; \<open>config_root\<close>, \<open>optimizeDeps_exclude\<close>
  (\<open>config.optimizeDeps?.exclude\<close>) and the two resolvers come from \<open>config\<close>,
  \<open>ssr\<close> is the optional flag. The remaining fields are what the file imports from
  modules that are not part of it: \<open>flattenId\<close>, \<open>normalizePath\<close>,
  \<open>isExternalUrl\<close>, \<open>moduleListContains\<close> and \<open>isRunningWithYarnPnp\<close> from
  \<open>../utils\<close>, \<open>browserExternalId\<close> from \<open>../plugins/resolve\<close>,
  \<open>known_asset_type\<close> for \<open>KNOWN_ASSET_TYPES\<close> from \<open>../constants\<close>, the functions of
  Node's \<open>path\<close> module, and \<open>fs.promises.readFile\<close>. They are parameters: every
  theorem below holds for all of them.
\<close>

record env =
  qualified_deps :: "string \<rightharpoonup> string"
  exportsData :: "string \<rightharpoonup> exports_data"
  config_root :: string
  optimizeDeps_exclude :: "string list option"
  ssr :: "bool option"
  resolver_esm :: resolver
  resolver_require :: resolver
  flattenId :: "string \<Rightarrow> string"
  normalizePath :: "string \<Rightarrow> string"
  isExternalUrl :: "string \<Rightarrow> bool"
  moduleListContains :: "string list option \<Rightarrow> string \<Rightarrow> bool"
  browserExternalId :: string
  known_asset_type :: "string \<Rightarrow> bool"
  isRunningWithYarnPnp :: bool
  path_join :: "string \<Rightarrow> string \<Rightarrow> string"
  path_resolve :: "string \<Rightarrow> string"
  path_relative :: "string \<Rightarrow> string \<Rightarrow> string"
  path_extname :: "string \<Rightarrow> string"
  fs_readFile :: "string \<Rightarrow> error + string"

subsection \<open>JavaScript helpers\<close>

text \<open>\<open>if (resolved)\<close> on a \<open>string | undefined\<close>: \<open>undefined\<close> and \<open>''''\<close> are falsy.\<close>

definition truthy :: "string option \<Rightarrow> bool" where
  "truthy v = (case v of None \<Rightarrow> False | Some s \<Rightarrow> s \<noteq> [])"

text \<open>A template-literal hole between double quotes: \<open>"${s}"\<close>.\<close>

definition quoted :: "string \<Rightarrow> string" where
  "quoted s = CHR 0x22 # s @ [CHR 0x22]"

text \<open>
  The two registries are plain objects, so \<open>key in obj\<close> and \<open>obj[key]\<close> also see
  the members inherited from \<open>Object.prototype\<close>. None of them is a string or an
  iterable.
\<close>

definition Object_prototype_keys :: "string list" where
  "Object_prototype_keys =
     [''constructor'', ''__defineGetter__'', ''__defineSetter__'', ''hasOwnProperty'',
      ''__lookupGetter__'', ''__lookupSetter__'', ''isPrototypeOf'',
      ''propertyIsEnumerable'', ''toString'', ''valueOf'', ''__proto__'',
      ''toLocaleString'']"

text \<open>\<open>key in obj\<close> for an object with the own properties \<open>m\<close>.\<close>

definition js_in :: "string \<Rightarrow> (string \<rightharpoonup> 'v) \<Rightarrow> bool" where
  "js_in k m = (m k \<noteq> None \<or> k \<in> set Object_prototype_keys)"

subsection \<open>The specifier resolver (lines 52-87)\<close>

definition call_resolver ::
  "env \<Rightarrow> bool \<Rightarrow> string \<Rightarrow> importer_value \<Rightarrow> bool option \<Rightarrow> bool option
    \<Rightarrow> (string option) logged" where
  "call_resolver e req spec imp aliasOnly s =
     ([ResolverCall req spec imp aliasOnly s],
      (if req then resolver_require e else resolver_esm e) spec imp aliasOnly s)"

text \<open>
  \<open>resolve(id, importer, kind, resolveDir?)\<close>: the importer is replaced by a path
  inside \<open>resolveDir\<close> when one is given, else by \<open>qualified[importer]\<close> when
  \<open>importer in qualified\<close> (its registered file, or the inherited member of that
  name); \<open>kind.startsWith('require')\<close> selects the resolver.
\<close>

definition resolve ::
  "env \<Rightarrow> string \<Rightarrow> string \<Rightarrow> string \<Rightarrow> string option \<Rightarrow> (string option) logged" where
  "resolve e spec importer kind rdir =
     (let importer' =
        (if truthy rdir
         then ImporterString
                (normalizePath e (path_join e (case rdir of Some d \<Rightarrow> d | None \<Rightarrow> []) ''*''))
         else if js_in importer (qualified_deps e)
         then (case qualified_deps e importer of
                 Some file \<Rightarrow> ImporterString file
               | None \<Rightarrow> ImporterInherited importer)
         else ImporterString importer)
      in call_resolver e (prefix ''require'' kind) spec importer' None (ssr e))"

definition resolveResult :: "env \<Rightarrow> string \<Rightarrow> string \<Rightarrow> resolve_result" where
  "resolveResult e spec resolved =
     (if prefix (browserExternalId e) resolved
      then \<lparr>path = spec, external = False, namespace = Some ''browser-external''\<rparr>
      else if isExternalUrl e resolved
      then \<lparr>path = resolved, external = True, namespace = None\<rparr>
      else \<lparr>path = path_resolve e resolved, external = False, namespace = None\<rparr>)"

text \<open>The variants of a resolution result, read off the fields of the returned object.\<close>

definition is_External :: "resolve_result \<Rightarrow> bool" where
  "is_External r = external r"

definition is_BrowserStub :: "resolve_result \<Rightarrow> bool" where
  "is_BrowserStub r = (\<not> external r \<and> namespace r = Some ''browser-external'')"

definition is_Concrete :: "resolve_result \<Rightarrow> bool" where
  "is_Concrete r = (\<not> external r \<and> namespace r = None)"

subsection \<open>The resolve callbacks (lines 93-146 and 207-221)\<close>

text \<open>
  The tail shared by the callbacks: \<open>if (resolved) return f(resolved)\<close>, else return
  nothing; a rejection propagates. \<open>calls\<close> are the resolver calls made before.
\<close>

definition if_resolved ::
  "resolver_call list \<Rightarrow> (string option) logged \<Rightarrow> (string \<Rightarrow> resolve_result)
    \<Rightarrow> (resolve_result option) logged" where
  "if_resolved calls r f =
     (case r of
        (cs, Inl err) \<Rightarrow> (calls @ cs, Inl err)
      | (cs, Inr None) \<Rightarrow> (calls @ cs, Inr None)
      | (cs, Inr (Some resolved)) \<Rightarrow>
          (calls @ cs, Inr (if resolved \<noteq> [] then Some (f resolved) else None)))"

text \<open>The callback registered on the filter built from \<open>externalTypes\<close> (lines 93-106).\<close>

definition externalTypes_onResolve :: "env \<Rightarrow> resolve_args \<Rightarrow> (resolve_result option) logged" where
  "externalTypes_onResolve e args =
     if_resolved [] (resolve e (arg_path args) (arg_importer args) (arg_kind args) None)
       (\<lambda>resolved. \<lparr>path = resolved, external = True, namespace = None\<rparr>)"

text \<open>\<open>resolveEntry\<close> (lines 108-116).\<close>

definition resolveEntry :: "env \<Rightarrow> string \<Rightarrow> resolve_result option" where
  "resolveEntry e spec =
     (let flatId = flattenId e spec
      in if js_in flatId (qualified_deps e)
         then Some \<lparr>path = flatId, external = False, namespace = Some ''dep''\<rparr>
         else None)"

text \<open>The callback registered on the bare-specifier filter (lines 118-146).\<close>

definition bare_onResolve :: "env \<Rightarrow> resolve_args \<Rightarrow> (resolve_result option) logged" where
  "bare_onResolve e args =
     (let spec = arg_path args; importer = arg_importer args; kind = arg_kind args
      in if moduleListContains e (optimizeDeps_exclude e) spec
         then ([], Inr (Some \<lparr>path = spec, external = True, namespace = None\<rparr>))
         else if importer = []
         then (case resolveEntry e spec of
                 Some entry \<Rightarrow> ([], Inr (Some entry))
               | None \<Rightarrow>
                  (case call_resolver e False spec ImporterUndefined (Some True) None of
                     (cs, Inl err) \<Rightarrow> (cs, Inl err)
                   | (cs, Inr aliased) \<Rightarrow>
                      (case (case aliased of
                               None \<Rightarrow> None
                             | Some a \<Rightarrow> if a \<noteq> [] then resolveEntry e a else None) of
                         Some entry \<Rightarrow> (cs, Inr (Some entry))
                       | None \<Rightarrow>
                          if_resolved cs (resolve e spec importer kind None)
                            (resolveResult e spec))))
         else if_resolved [] (resolve e spec importer kind None) (resolveResult e spec))"

text \<open>The catch-all callback registered under Yarn PnP (lines 207-221).\<close>

definition pnp_onResolve :: "env \<Rightarrow> resolve_args \<Rightarrow> (resolve_result option) logged" where
  "pnp_onResolve e args =
     if_resolved []
       (resolve e (arg_path args) (arg_importer args) (arg_kind args)
          (if arg_namespace args = ''dep'' then Some (arg_resolveDir args) else None))
       (resolveResult e (arg_path args))"

subsection \<open>The filters of the resolve callbacks and their order (lines 15-35, 93-96, 119, 208)\<close>

text \<open>The literal members of \<open>externalTypes\<close>; \<open>KNOWN_ASSET_TYPES\<close> follows them.\<close>

definition externalTypes :: "string list" where
  "externalTypes =
     [''css'', ''less'', ''sass'', ''scss'', ''styl'', ''stylus'', ''pcss'', ''postcss'',
      ''vue'', ''svelte'', ''marko'', ''astro'', ''jsx'', ''tsx'']"

text \<open>
  The filter \<open>\.(t1|t2|...)(\?.*)?$\<close>: somewhere in the specifier a dot, then one of the
  types, then either the end or a question mark followed up to the end by characters
  other than a line feed. The alternatives of \<open>KNOWN_ASSET_TYPES\<close> are patterns
  themselves; \<open>known_asset_type e x\<close> says that one of them matches all of \<open>x\<close>.
\<close>

definition externalTypes_filter :: "env \<Rightarrow> string \<Rightarrow> bool" where
  "externalTypes_filter e spec =
     list_ex (\<lambda>i.
        spec ! i = CHR ''.'' \<and>
        list_ex (\<lambda>j.
           (let x = take (j - Suc i) (drop (Suc i) spec)
            in x \<in> set externalTypes \<or> known_asset_type e x) \<and>
           (case drop j spec of
              [] \<Rightarrow> True
            | c # query \<Rightarrow> c = CHR ''?'' \<and> CHR 0x0A \<notin> set query))
          [Suc i..<Suc (length spec)])
       [0..<length spec]"

text \<open>\<open>\w\<close>: an ASCII letter, a digit or the underscore.\<close>

definition word_char :: "char \<Rightarrow> bool" where
  "word_char c =
     (let n = (of_char c :: nat)
      in (48 \<le> n \<and> n \<le> 57) \<or> (65 \<le> n \<and> n \<le> 90) \<or> (97 \<le> n \<and> n \<le> 122) \<or> n = 95)"

text \<open>The filter \<open>/^[\w@][^:]/\<close> of the bare-specifier callback.\<close>

definition bare_filter :: "string \<Rightarrow> bool" where
  "bare_filter spec =
     (case spec of
        c # d # _ \<Rightarrow> (word_char c \<or> c = CHR ''@'') \<and> d \<noteq> CHR '':''
      | _ \<Rightarrow> False)"

text \<open>
  A resolve event goes through the resolve callbacks in the order of their
  registration: the externalization callback, the bare-specifier callback and, under
  Yarn PnP, the catch-all. A callback runs when its filter matches the specifier; the
  first result, or the first failure, ends the search, and a callback that returns
  nothing hands the event to the next one.
\<close>

definition plugin_onResolve :: "env \<Rightarrow> resolve_args \<Rightarrow> (resolve_result option) logged" where
  "plugin_onResolve e args =
     (case (if externalTypes_filter e (arg_path args)
            then externalTypes_onResolve e args else ([], Inr None)) of
        (c1, Inr None) \<Rightarrow>
          (case (if bare_filter (arg_path args)
                 then bare_onResolve e args else ([], Inr None)) of
             (c2, Inr None) \<Rightarrow>
               (case (if isRunningWithYarnPnp e
                      then pnp_onResolve e args else ([], Inr None)) of
                  (c3, out) \<Rightarrow> (c1 @ c2 @ c3, out))
           | (c2, out) \<Rightarrow> (c1 @ c2, out))
      | (c1, out) \<Rightarrow> (c1, out))"

subsection \<open>The load callbacks (lines 156-203 and 223-226)\<close>

definition root :: "env \<Rightarrow> string" where
  "root e = path_resolve e (config_root e)"

text \<open>Lines 160-167: the import path written into the proxy module.\<close>

definition relativePath :: "env \<Rightarrow> string \<Rightarrow> string" where
  "relativePath e entryFile =
     (let rp = normalizePath e (path_relative e (root e) entryFile)
      in if \<not> prefix ''./'' rp \<and> \<not> prefix ''../'' rp \<and> rp \<noteq> ''.''
         then ''./'' @ rp
         else rp)"

text \<open>The three statements the proxy module is made of (lines 174, 177 and 184).\<close>

definition cjs_statement :: "string \<Rightarrow> string" where
  "cjs_statement rp = ''export default require('' @ quoted rp @ '');''"

definition default_statement :: "string \<Rightarrow> string" where
  "default_statement rp = ''import d from '' @ quoted rp @ '';export default d;''"

definition wildcard_statement :: "string \<Rightarrow> string" where
  "wildcard_statement rp = CHR 0x0A # ''export * from '' @ quoted rp"

text \<open>
  Lines 169-186. \<open>exports[0] !== 'default'\<close> holds on the empty array, where
  \<open>exports[0]\<close> is \<open>undefined\<close>.
\<close>

definition proxy_contents :: "string \<Rightarrow> exports_data \<Rightarrow> string" where
  "proxy_contents rp d =
     (let imports = data_imports d; exports = data_exports d
      in if length imports = 0 \<and> length exports = 0
         then [] @ cjs_statement rp
         else ([] @ (if ''default'' \<in> set exports then default_statement rp else []))
              @ (if hasReExports d \<or> length exports > 1
                    \<or> (case exports of [] \<Rightarrow> True | x # _ \<Rightarrow> x \<noteq> ''default'')
                 then wildcard_statement rp
                 else []))"

text \<open>Lines 188-189: the loader named after the entry file's extension.\<close>

definition loader_of :: "env \<Rightarrow> string \<Rightarrow> string" where
  "loader_of e entryFile =
     (let ext = drop 1 (path_extname e entryFile)
      in if ext = ''mjs'' then ''js'' else ext)"

text \<open>
  The callback of namespace \<open>dep\<close> (lines 157-195). \<open>qualified[id]\<close> of a key that
  is not an own property is \<open>undefined\<close> or an inherited member, not a string, on
  which \<open>path.relative\<close> throws; \<open>exportsData[id]\<close> of such a key is \<open>undefined\<close>
  or an inherited member, not an iterable, on which the destructuring throws.
\<close>

definition dep_onLoad :: "env \<Rightarrow> string \<Rightarrow> error + load_result" where
  "dep_onLoad e eid =
     (case qualified_deps e eid of
        None \<Rightarrow> Inl InvalidArgType
      | Some entryFile \<Rightarrow>
          (let rp = relativePath e entryFile
           in case exportsData e eid of
                None \<Rightarrow> Inl NotIterable
              | Some d \<Rightarrow>
                  Inr \<lparr>loader = Some (loader_of e entryFile),
                       contents = proxy_contents rp d,
                       resolveDir = Some (root e)\<rparr>))"

text \<open>The callback of namespace \<open>browser-external\<close> (lines 201-203).\<close>

definition browser_external_onLoad :: "string \<Rightarrow> load_result" where
  "browser_external_onLoad p = \<lparr>loader = None, contents = [], resolveDir = None\<rparr>"

text \<open>The catch-all callback registered under Yarn PnP (lines 223-226).\<close>

definition pnp_onLoad :: "env \<Rightarrow> string \<Rightarrow> error + load_result" where
  "pnp_onLoad e p =
     (case fs_readFile e p of
        Inl err \<Rightarrow> Inl err
      | Inr bytes \<Rightarrow> Inr \<lparr>loader = Some ''default'', contents = bytes, resolveDir = None\<rparr>)"

text \<open>
  A load event of namespace \<open>ns\<close> goes through the load callbacks in the order of their
  registration; a callback runs when its namespace, if it names one, is the event's
  (every filter is \<open>/.*/\<close>), and the first result ends the search.
\<close>

definition plugin_onLoad :: "env \<Rightarrow> string \<Rightarrow> string \<Rightarrow> error + load_result option" where
  "plugin_onLoad e ns p =
     (if ns = ''dep''
      then (case dep_onLoad e p of Inl err \<Rightarrow> Inl err | Inr r \<Rightarrow> Inr (Some r))
      else if ns = ''browser-external''
      then Inr (Some (browser_external_onLoad p))
      else if isRunningWithYarnPnp e
      then (case pnp_onLoad e p of Inl err \<Rightarrow> Inl err | Inr r \<Rightarrow> Inr (Some r))
      else Inr None)"

subsection \<open>An example configuration\<close>

text \<open>
  A project rooted at \<open>/app\<close> with \<open>left-pad\<close> excluded and eight registered
  dependencies: \<open>vue\<close> exports \<open>default\<close> and \<open>foo\<close>, \<open>nanoid\<close> exports only
  \<open>foo\<close>, \<open>core-js\<close> has imports and no exports, \<open>lodash/merge\<close> is a CommonJS
  module, \<open>self\<close> is the root directory itself, and \<open>orphan\<close>, \<open>normalize.css\<close>
  and \<open>q\<close> have no export metadata. The collaborators are simple stand-ins, enough
  to run the callbacks on these paths; \<open>demo_relative\<close> agrees with \<open>path.relative\<close>
  only on paths at or below its first argument.
\<close>

definition demo_resolver :: resolver where
  "demo_resolver spec imp aliasOnly s =
     (if aliasOnly = Some True then Inr None
      else if spec = ''./theme.css'' then Inr (Some ''/app/src/theme.css'')
      else if spec = ''fs'' then Inr (Some ''__vite-browser-external:fs'')
      else if spec = ''left-pad'' then Inr (Some ''/app/node_modules/left-pad/index.js'')
      else if spec = ''normalize.css''
      then Inr (Some ''/app/node_modules/normalize.css/normalize.css'')
      else if spec = ''react'' then Inr (Some ''node_modules/react/index.js'')
      else if spec = ''remote'' then Inr (Some ''https://cdn.example.com/remote.js'')
      else Inr None)"

definition demo_flattenId :: "string \<Rightarrow> string" where
  "demo_flattenId s = map (\<lambda>c. if c = CHR ''/'' \<or> c = CHR ''.'' then CHR ''_'' else c) s"

definition demo_moduleListContains :: "string list option \<Rightarrow> string \<Rightarrow> bool" where
  "demo_moduleListContains l m =
     (case l of None \<Rightarrow> False | Some ms \<Rightarrow> list_ex (\<lambda>x. x = m \<or> prefix (x @ ''/'') m) ms)"

definition demo_relative :: "string \<Rightarrow> string \<Rightarrow> string" where
  "demo_relative from to =
     (if to = from then []
      else if prefix (from @ ''/'') to then drop (length from + 1) to
      else to)"

definition demo_env :: env where
  "demo_env =
     \<lparr>qualified_deps =
        [''vue'' \<mapsto> ''/app/node_modules/vue/dist/vue.mjs'',
         ''nanoid'' \<mapsto> ''/app/node_modules/nanoid/index.js'',
         ''core-js'' \<mapsto> ''/app/node_modules/core-js/index.js'',
         ''lodash_merge'' \<mapsto> ''/app/node_modules/lodash/merge.js'',
         ''self'' \<mapsto> ''/app'',
         ''orphan'' \<mapsto> ''/app/node_modules/orphan/index.js'',
         ''normalize_css'' \<mapsto> ''/app/node_modules/normalize.css/normalize.css'',
         ''q'' \<mapsto> ''/app/node_modules/q/q.js''],
      exportsData =
        [''vue'' \<mapsto> \<lparr>data_imports = [''@vue/runtime-dom''],
                          data_exports = [''default'', ''foo''], hasReExports = False\<rparr>,
         ''nanoid'' \<mapsto> \<lparr>data_imports = [], data_exports = [''foo''], hasReExports = False\<rparr>,
         ''core-js'' \<mapsto> \<lparr>data_imports = [''./es''], data_exports = [], hasReExports = False\<rparr>,
         ''lodash_merge'' \<mapsto> \<lparr>data_imports = [], data_exports = [], hasReExports = False\<rparr>,
         ''self'' \<mapsto> \<lparr>data_imports = [], data_exports = [], hasReExports = False\<rparr>],
      config_root = ''/app'',
      optimizeDeps_exclude = Some [''left-pad''],
      ssr = None,
      resolver_esm = demo_resolver,
      resolver_require = demo_resolver,
      flattenId = demo_flattenId,
      normalizePath = (\<lambda>p. if p = [] then ''.'' else p),
      isExternalUrl = (\<lambda>u. prefix ''http://'' u \<or> prefix ''https://'' u \<or> prefix ''//'' u),
      moduleListContains = demo_moduleListContains,
      browserExternalId = ''__vite-browser-external'',
      known_asset_type = (\<lambda>x. x \<in> set [''png'', ''svg'', ''woff'', ''woff2'']),
      isRunningWithYarnPnp = False,
      path_join = (\<lambda>a b. a @ ''/'' @ b),
      path_resolve = (\<lambda>p. if prefix ''/'' p then p else ''/app/'' @ p),
      path_relative = demo_relative,
      path_extname = (\<lambda>p. if suffix ''.mjs'' p then ''.mjs'' else if suffix ''.js'' p then ''.js'' else []),
      fs_readFile = (\<lambda>p. Inl (Rejected ''ENOENT''))\<rparr>"

text \<open>The same project with resolvers that locate nothing.\<close>

definition demo_env_offline :: env where
  "demo_env_offline =
     demo_env\<lparr>resolver_esm := (\<lambda>spec imp aliasOnly s. Inr None),
              resolver_require := (\<lambda>spec imp aliasOnly s. Inr None)\<rparr>"

text \<open>A resolve event for \<open>spec\<close> from \<open>importer\<close>, in the bundler's default namespace.\<close>

definition demo_args :: "string \<Rightarrow> string \<Rightarrow> resolve_args" where
  "demo_args spec importer =
     \<lparr>arg_path = spec, arg_importer = importer, arg_kind = ''import-statement'',
      arg_namespace = ''file'', arg_resolveDir = ''/app/src''\<rparr>"

section \<open>Properties\<close>

subsection \<open>Facts about the callbacks\<close>

lemma if_resolved_eq:
  "if_resolved [] (calls, found) f =
     (calls, case found of
               Inl err \<Rightarrow> Inl err
             | Inr None \<Rightarrow> Inr None
             | Inr (Some p) \<Rightarrow> if p \<noteq> [] then Inr (Some (f p)) else Inr None)"
  by (simp add: if_resolved_def split: sum.splits option.splits)

lemma dep_onLoad_found:
  "qualified_deps e eid = Some entryFile \<Longrightarrow> exportsData e eid = Some d \<Longrightarrow>
   dep_onLoad e eid =
     Inr \<lparr>loader = Some (loader_of e entryFile),
          contents = proxy_contents (relativePath e entryFile) d,
          resolveDir = Some (root e)\<rparr>"
  by (simp add: dep_onLoad_def)

lemma first_not_default_iff:
  "(case xs of [] \<Rightarrow> True | x # _ \<Rightarrow> x \<noteq> ''default'') = (\<not> prefix [''default''] xs)"
  by (cases xs) auto

lemma default_absent_starts_other:
  "''default'' \<notin> set xs \<Longrightarrow> \<not> prefix [''default''] xs"
  by (cases xs) auto


text \<open>The source text of an entry that is an ES module: up to two statements.\<close>

lemma proxy_contents_esm:
  "data_imports d \<noteq> [] \<or> data_exports d \<noteq> [] \<Longrightarrow>
   proxy_contents rp d =
     (if ''default'' \<in> set (data_exports d) then default_statement rp else [])
     @ (if hasReExports d \<or> 1 < length (data_exports d) \<or> \<not> prefix [''default''] (data_exports d)
        then wildcard_statement rp else [])"
  by (auto simp: proxy_contents_def first_not_default_iff)

subsection \<open>One statement is never found inside the other\<close>

lemma length_default_statement: "length (default_statement rp) = length rp + 34"
  by (simp add: default_statement_def quoted_def)

lemma length_wildcard_statement: "length (wildcard_statement rp) = length rp + 17"
  by (simp add: wildcard_statement_def quoted_def)

lemma default_not_in_wildcard:
  "\<not> sublist (default_statement rp) (wildcard_statement rp)"
proof
  assume "sublist (default_statement rp) (wildcard_statement rp)"
  then have "length (default_statement rp) \<le> length (wildcard_statement rp)"
    by (rule sublist_length_le)
  then show False
    by (simp add: length_default_statement length_wildcard_statement)
qed




text \<open>Every proxy module holds the import path between double quotes.\<close>

lemma quoted_in_contents:
  "sublist (quoted rp) (proxy_contents rp d)"
proof -
  have c: "sublist (quoted rp) (cjs_statement rp)"
    unfolding cjs_statement_def by (rule sublist_appendI)
  have "default_statement rp = ''import d from '' @ quoted rp @ '';export default d;''"
    by (simp add: default_statement_def)
  then have d: "sublist (quoted rp) (default_statement rp)"
    by (metis sublist_appendI)
  have "wildcard_statement rp = (CHR 0x0A # ''export * from '') @ quoted rp"
    by (simp add: wildcard_statement_def)
  then have w: "sublist (quoted rp) (wildcard_statement rp)"
    by (metis sublist_append_leftI)
  show ?thesis
  proof (cases "data_imports d = [] \<and> data_exports d = []")
    case True
    with c show ?thesis by (simp add: proxy_contents_def)
  next
    case False
    then have p: "proxy_contents rp d =
      (if ''default'' \<in> set (data_exports d) then default_statement rp else [])
      @ (if hasReExports d \<or> 1 < length (data_exports d) \<or> \<not> prefix [''default''] (data_exports d)
         then wildcard_statement rp else [])"
      by (intro proxy_contents_esm) simp
    show ?thesis
    proof (cases "''default'' \<in> set (data_exports d)")
      case True
      with d show ?thesis
        by (auto simp: p sublist_append)
    next
      case False
      then have "\<not> prefix [''default''] (data_exports d)"
        by (rule default_absent_starts_other)
      with False w show ?thesis
        by (simp add: p)
    qed
  qed
qed

subsection \<open>The example configuration, evaluated\<close>

lemma demo_root: "root demo_env = ''/app''"
  by (simp add: root_def demo_env_def)



lemma demo_relativePath_corejs:
  "relativePath demo_env ''/app/node_modules/core-js/index.js'' = ''./node_modules/core-js/index.js''"
  by (simp add: relativePath_def demo_root) (simp add: demo_env_def demo_relative_def)

lemma demo_relativePath_lodash:
  "relativePath demo_env ''/app/node_modules/lodash/merge.js'' = ''./node_modules/lodash/merge.js''"
  by (simp add: relativePath_def demo_root) (simp add: demo_env_def demo_relative_def)

lemma externalTypes_filter_at:
  assumes "i < length spec" and "spec ! i = CHR ''.''"
    and "i < j" and "j \<le> length spec"
    and "take (j - Suc i) (drop (Suc i) spec) \<in> set externalTypes
         \<or> known_asset_type e (take (j - Suc i) (drop (Suc i) spec))"
    and "drop j spec = []"
  shows "externalTypes_filter e spec"
  unfolding externalTypes_filter_def list_ex_iff
  using assms by (intro bexI [of _ i] conjI bexI [of _ j]) (auto simp: Let_def)

lemma externalTypes_filter_no_dot:
  "CHR ''.'' \<notin> set spec \<Longrightarrow> \<not> externalTypes_filter e spec"
  unfolding externalTypes_filter_def list_ex_iff
  by (auto simp: in_set_conv_nth)

lemma demo_filter_normalize: "externalTypes_filter demo_env ''normalize.css''"
  by (rule externalTypes_filter_at [of 9 _ 13]) (simp_all add: externalTypes_def)

lemma demo_filter_normalize_offline: "externalTypes_filter demo_env_offline ''normalize.css''"
  by (rule externalTypes_filter_at [of 9 _ 13]) (simp_all add: externalTypes_def)

lemma demo_filter_lodash: "\<not> externalTypes_filter demo_env ''lodash/merge''"
  by (rule externalTypes_filter_no_dot) simp

subsection \<open>The externalization callback\<close>

text \<open>
  C1, as stated: for a specifier whose extension is in the externalization set the
  callback externalizes it whether or not the resolver locates a file. It does not:
  for \<open>./missing.css\<close>, which the resolver of the example does not locate, the
  callback calls the resolver once and returns nothing, leaving the specifier to the
  later callbacks and to the bundler.
\<close>

theorem externalTypes_onResolve_unresolved_counterexample:
  "externalTypes_onResolve demo_env (demo_args ''./missing.css'' ''/app/src/main.js'') =
     ([ResolverCall False ''./missing.css'' (ImporterString ''/app/src/main.js'') None None], Inr None)"
  by (simp add: externalTypes_onResolve_def if_resolved_def resolve_def call_resolver_def
        truthy_def js_in_def Object_prototype_keys_def demo_args_def demo_env_def
        demo_resolver_def)

text \<open>
  C1, amended: the externalization callback never returns a concrete (non-external)
  result. Whatever it returns is an external result carrying the non-empty path the
  resolver found; it returns that result whenever the resolver finds a non-empty path;
  when the resolver finds nothing it returns nothing; and a rejection of the
  resolver is passed on. This holds for every specifier the callback is run on, so
  for those that match its filter.
\<close>

theorem externalTypes_onResolve_never_concrete:
  assumes "resolve e (arg_path args) (arg_importer args) (arg_kind args) None = (calls, found)"
  shows "(\<forall>r. snd (externalTypes_onResolve e args) = Inr (Some r) \<longrightarrow>
            is_External r \<and> \<not> is_Concrete r \<and> path r \<noteq> [] \<and> found = Inr (Some (path r)))
    \<and> (\<forall>p. found = Inr (Some p) \<and> p \<noteq> [] \<longrightarrow>
            externalTypes_onResolve e args =
              (calls, Inr (Some \<lparr>path = p, external = True, namespace = None\<rparr>)))
    \<and> (found = Inr None \<or> found = Inr (Some []) \<longrightarrow>
            externalTypes_onResolve e args = (calls, Inr None))
    \<and> (\<forall>err. found = Inl err \<longrightarrow> externalTypes_onResolve e args = (calls, Inl err))"
proof -
  have eq: "externalTypes_onResolve e args =
     (calls, case found of
               Inl err \<Rightarrow> Inl err
             | Inr None \<Rightarrow> Inr None
             | Inr (Some p) \<Rightarrow>
                 if p \<noteq> [] then Inr (Some \<lparr>path = p, external = True, namespace = None\<rparr>)
                 else Inr None)"
    by (simp add: externalTypes_onResolve_def assms if_resolved_eq)
  show ?thesis
  proof (cases found)
    case (Inl err)
    then show ?thesis by (simp add: eq)
  next
    case (Inr v)
    show ?thesis
    proof (cases v)
      case None
      with Inr show ?thesis by (simp add: eq)
    next
      case (Some p)
      with Inr show ?thesis
        by (cases "p = []") (auto simp: eq is_External_def is_Concrete_def)
    qed
  qed
qed

theorem externalTypes_onResolve_never_concrete_witness:
  "externalTypes_onResolve demo_env (demo_args ''./theme.css'' ''/app/src/main.js'') =
     ([ResolverCall False ''./theme.css'' (ImporterString ''/app/src/main.js'') None None],
      Inr (Some \<lparr>path = ''/app/src/theme.css'', external = True, namespace = None\<rparr>))
   \<and> snd (externalTypes_onResolve demo_env (demo_args ''./absent.css'' ''/app/src/main.js''))
       = Inr None"
proof -
  have r1: "resolve demo_env (arg_path (demo_args ''./theme.css'' ''/app/src/main.js''))
        (arg_importer (demo_args ''./theme.css'' ''/app/src/main.js''))
        (arg_kind (demo_args ''./theme.css'' ''/app/src/main.js'')) None =
      ([ResolverCall False ''./theme.css'' (ImporterString ''/app/src/main.js'') None None],
       Inr (Some ''/app/src/theme.css''))"
    by (simp add: resolve_def call_resolver_def truthy_def js_in_def Object_prototype_keys_def
          demo_args_def demo_env_def demo_resolver_def)
  have r2: "resolve demo_env (arg_path (demo_args ''./absent.css'' ''/app/src/main.js''))
        (arg_importer (demo_args ''./absent.css'' ''/app/src/main.js''))
        (arg_kind (demo_args ''./absent.css'' ''/app/src/main.js'')) None =
      ([ResolverCall False ''./absent.css'' (ImporterString ''/app/src/main.js'') None None], Inr None)"
    by (simp add: resolve_def call_resolver_def truthy_def js_in_def Object_prototype_keys_def
          demo_args_def demo_env_def demo_resolver_def)
  have "externalTypes_onResolve demo_env (demo_args ''./theme.css'' ''/app/src/main.js'') =
     ([ResolverCall False ''./theme.css'' (ImporterString ''/app/src/main.js'') None None],
      Inr (Some \<lparr>path = ''/app/src/theme.css'', external = True, namespace = None\<rparr>))"
    using externalTypes_onResolve_never_concrete [OF r1] by blast
  moreover
  have "externalTypes_onResolve demo_env (demo_args ''./absent.css'' ''/app/src/main.js'') =
     ([ResolverCall False ''./absent.css'' (ImporterString ''/app/src/main.js'') None None], Inr None)"
    using externalTypes_onResolve_never_concrete [OF r2] by blast
  ultimately show ?thesis by simp
qed

subsection \<open>The bare-specifier callback\<close>

text \<open>
  C5. When the exclusion list matches the specifier, the bare-specifier callback
  returns the external result whose path is the specifier, and its call log is empty:
  no resolver is invoked. This holds for every pair of resolvers, so also when they
  would find a file; in the example the resolver finds \<open>left-pad\<close> on disk.
\<close>

theorem bare_onResolve_excluded:
  assumes "moduleListContains e (optimizeDeps_exclude e) (arg_path args)"
  shows "bare_onResolve e args =
      ([], Inr (Some \<lparr>path = arg_path args, external = True, namespace = None\<rparr>))"
  using assms by (simp add: bare_onResolve_def Let_def)

theorem bare_onResolve_excluded_witness:
  "resolver_esm demo_env ''left-pad'' (ImporterString ''/app/src/main.js'') None None =
     Inr (Some ''/app/node_modules/left-pad/index.js'')
   \<and> bare_onResolve demo_env (demo_args ''left-pad'' ''/app/src/main.js'') =
     ([], Inr (Some \<lparr>path = ''left-pad'', external = True, namespace = None\<rparr>))"
proof -
  have a: "moduleListContains demo_env (optimizeDeps_exclude demo_env)
        (arg_path (demo_args ''left-pad'' ''/app/src/main.js''))"
    by (simp add: demo_args_def demo_env_def demo_moduleListContains_def)
  have "resolver_esm demo_env ''left-pad'' (ImporterString ''/app/src/main.js'') None None =
     Inr (Some ''/app/node_modules/left-pad/index.js'')"
    by (simp add: demo_env_def demo_resolver_def)
  with bare_onResolve_excluded [OF a] show ?thesis
    by (simp add: demo_args_def)
qed

subsection \<open>Resolve events of registered entries\<close>

text \<open>What the bare-specifier callback does with a registered entry, once it runs.\<close>

lemma bare_onResolve_registered:
  assumes "\<not> moduleListContains e (optimizeDeps_exclude e) (arg_path args)"
    and "arg_importer args = []"
    and "qualified_deps e (flattenId e (arg_path args)) = Some file"
  shows "bare_onResolve e args =
      ([], Inr (Some \<lparr>path = flattenId e (arg_path args), external = False,
                      namespace = Some ''dep''\<rparr>))"
  using assms by (simp add: bare_onResolve_def resolveEntry_def js_in_def Let_def)

text \<open>
  C3, as stated: every resolve event with no importer whose specifier is not excluded
  and flattens to a registered id gets the result of namespace \<open>dep\<close> whose path is
  the flattened id. It does not. \<open>normalize.css\<close> is registered (as
  \<open>normalize_css\<close>) and not excluded, but it matches the externalization filter and
  the resolver locates it, so the externalization callback, registered first, answers
  with an external result carrying the file. \<open>q\<close> is registered and not excluded,
  but the bare-specifier filter asks for two characters, so no callback runs and the
  event gets no result.
\<close>

theorem plugin_onResolve_entry_counterexample:
  "qualified_deps demo_env (flattenId demo_env ''normalize.css'') =
     Some ''/app/node_modules/normalize.css/normalize.css''
   \<and> \<not> moduleListContains demo_env (optimizeDeps_exclude demo_env) ''normalize.css''
   \<and> plugin_onResolve demo_env (demo_args ''normalize.css'' []) =
     ([ResolverCall False ''normalize.css'' (ImporterString []) None None],
      Inr (Some \<lparr>path = ''/app/node_modules/normalize.css/normalize.css'', external = True,
                  namespace = None\<rparr>))
   \<and> qualified_deps demo_env (flattenId demo_env ''q'') = Some ''/app/node_modules/q/q.js''
   \<and> \<not> moduleListContains demo_env (optimizeDeps_exclude demo_env) ''q''
   \<and> plugin_onResolve demo_env (demo_args ''q'' []) = ([], Inr None)"
proof -
  have f1: "externalTypes_filter demo_env ''normalize.css''"
    by (simp add: demo_filter_normalize)
  have f2: "\<not> externalTypes_filter demo_env ''q''"
    by (simp add: externalTypes_filter_def)
  have b2: "\<not> bare_filter ''q''"
    by (simp add: bare_filter_def)
  have p: "isRunningWithYarnPnp demo_env = False"
    by (simp add: demo_env_def)
  have r: "externalTypes_onResolve demo_env (demo_args ''normalize.css'' []) =
     ([ResolverCall False ''normalize.css'' (ImporterString []) None None],
      Inr (Some \<lparr>path = ''/app/node_modules/normalize.css/normalize.css'', external = True,
                  namespace = None\<rparr>))"
    by (simp add: externalTypes_onResolve_def if_resolved_def resolve_def call_resolver_def
          truthy_def js_in_def Object_prototype_keys_def demo_args_def demo_env_def
          demo_resolver_def)
  have "plugin_onResolve demo_env (demo_args ''normalize.css'' []) =
     ([ResolverCall False ''normalize.css'' (ImporterString []) None None],
      Inr (Some \<lparr>path = ''/app/node_modules/normalize.css/normalize.css'', external = True,
                  namespace = None\<rparr>))"
    using f1 by (simp add: plugin_onResolve_def demo_args_def [of "''normalize.css''"] r [unfolded demo_args_def])
  moreover have "plugin_onResolve demo_env (demo_args ''q'' []) = ([], Inr None)"
    using f2 b2 p by (simp add: plugin_onResolve_def demo_args_def)
  moreover have "qualified_deps demo_env (flattenId demo_env ''normalize.css'') =
     Some ''/app/node_modules/normalize.css/normalize.css''"
    and "qualified_deps demo_env (flattenId demo_env ''q'') = Some ''/app/node_modules/q/q.js''"
    and "\<not> moduleListContains demo_env (optimizeDeps_exclude demo_env) ''normalize.css''"
    and "\<not> moduleListContains demo_env (optimizeDeps_exclude demo_env) ''q''"
    by (simp_all add: demo_env_def demo_flattenId_def demo_moduleListContains_def)
  ultimately show ?thesis by simp
qed

text \<open>
  C3, amended: a resolve event with no importer, whose specifier is not matched by
  the exclusion list, flattens to a key of the entry registry and matches the
  bare-specifier filter, gets the result of namespace \<open>dep\<close> whose path is the
  flattened id (so not the registered file, unless the registry maps the id to
  itself), provided the externalization callback does not answer first: either its
  filter does not match the specifier or it returns nothing, the resolver not having
  located the specifier. The only resolver calls are those of the externalization
  callback.
\<close>

theorem plugin_onResolve_entry:
  assumes "\<not> moduleListContains e (optimizeDeps_exclude e) (arg_path args)"
    and "arg_importer args = []"
    and "qualified_deps e (flattenId e (arg_path args)) = Some file"
    and "bare_filter (arg_path args)"
    and "\<not> externalTypes_filter e (arg_path args)
         \<or> snd (externalTypes_onResolve e args) = Inr None"
  shows "plugin_onResolve e args =
      (if externalTypes_filter e (arg_path args)
       then fst (externalTypes_onResolve e args) else [],
       Inr (Some \<lparr>path = flattenId e (arg_path args), external = False,
                   namespace = Some ''dep''\<rparr>))
    \<and> (\<forall>r. snd (plugin_onResolve e args) = Inr (Some r) \<and> file \<noteq> flattenId e (arg_path args)
          \<longrightarrow> path r \<noteq> file)"
proof -
  have bare: "bare_onResolve e args =
      ([], Inr (Some \<lparr>path = flattenId e (arg_path args), external = False,
                      namespace = Some ''dep''\<rparr>))"
    using assms(1,2,3) by (rule bare_onResolve_registered)
  have "plugin_onResolve e args =
      (if externalTypes_filter e (arg_path args)
       then fst (externalTypes_onResolve e args) else [],
       Inr (Some \<lparr>path = flattenId e (arg_path args), external = False,
                   namespace = Some ''dep''\<rparr>))"
  proof (cases "externalTypes_filter e (arg_path args)")
    case True
    with assms(5) have "snd (externalTypes_onResolve e args) = Inr None"
      by simp
    then obtain c1 where "externalTypes_onResolve e args = (c1, Inr None)"
      by (cases "externalTypes_onResolve e args") simp
    with True assms(4) show ?thesis
      by (simp add: plugin_onResolve_def bare)
  next
    case False
    with assms(4) show ?thesis
      by (simp add: plugin_onResolve_def bare)
  qed
  then show ?thesis by simp
qed

theorem plugin_onResolve_entry_witness:
  "plugin_onResolve demo_env (demo_args ''lodash/merge'' []) =
     ([], Inr (Some \<lparr>path = ''lodash_merge'', external = False, namespace = Some ''dep''\<rparr>))
   \<and> plugin_onResolve demo_env_offline (demo_args ''normalize.css'' []) =
     ([ResolverCall False ''normalize.css'' (ImporterString []) None None],
      Inr (Some \<lparr>path = ''normalize_css'', external = False, namespace = Some ''dep''\<rparr>))"
proof -
  have a: "\<not> moduleListContains demo_env (optimizeDeps_exclude demo_env)
        (arg_path (demo_args ''lodash/merge'' []))"
    and b: "arg_importer (demo_args ''lodash/merge'' []) = []"
    and f: "flattenId demo_env (arg_path (demo_args ''lodash/merge'' [])) = ''lodash_merge''"
    and g: "bare_filter (arg_path (demo_args ''lodash/merge'' []))"
    by (simp_all add: demo_args_def demo_env_def demo_moduleListContains_def demo_flattenId_def
          bare_filter_def word_char_def)
  have c: "qualified_deps demo_env (flattenId demo_env (arg_path (demo_args ''lodash/merge'' [])))
      = Some ''/app/node_modules/lodash/merge.js''"
    unfolding f by (simp add: demo_env_def)
  have n: "\<not> externalTypes_filter demo_env (arg_path (demo_args ''lodash/merge'' []))"
    by (simp add: demo_args_def demo_filter_lodash)
  then have h: "\<not> externalTypes_filter demo_env (arg_path (demo_args ''lodash/merge'' []))
      \<or> snd (externalTypes_onResolve demo_env (demo_args ''lodash/merge'' [])) = Inr None"
    by simp
  have a': "\<not> moduleListContains demo_env_offline (optimizeDeps_exclude demo_env_offline)
        (arg_path (demo_args ''normalize.css'' []))"
    and b': "arg_importer (demo_args ''normalize.css'' []) = []"
    and f': "flattenId demo_env_offline (arg_path (demo_args ''normalize.css'' [])) = ''normalize_css''"
    and g': "bare_filter (arg_path (demo_args ''normalize.css'' []))"
    by (simp_all add: demo_args_def demo_env_offline_def demo_env_def demo_moduleListContains_def
          demo_flattenId_def bare_filter_def word_char_def)
  have c': "qualified_deps demo_env_offline
        (flattenId demo_env_offline (arg_path (demo_args ''normalize.css'' [])))
      = Some ''/app/node_modules/normalize.css/normalize.css''"
    unfolding f' by (simp add: demo_env_offline_def demo_env_def)
  have y: "externalTypes_filter demo_env_offline (arg_path (demo_args ''normalize.css'' []))"
    by (simp add: demo_args_def demo_filter_normalize_offline)
  have r: "externalTypes_onResolve demo_env_offline (demo_args ''normalize.css'' []) =
      ([ResolverCall False ''normalize.css'' (ImporterString []) None None], Inr None)"
    by (simp add: externalTypes_onResolve_def if_resolved_def resolve_def call_resolver_def
          truthy_def js_in_def Object_prototype_keys_def demo_args_def demo_env_offline_def
          demo_env_def)
  then have h': "\<not> externalTypes_filter demo_env_offline (arg_path (demo_args ''normalize.css'' []))
      \<or> snd (externalTypes_onResolve demo_env_offline (demo_args ''normalize.css'' [])) = Inr None"
    by simp
  from plugin_onResolve_entry [OF a b c g h] n
  have "plugin_onResolve demo_env (demo_args ''lodash/merge'' []) =
     ([], Inr (Some \<lparr>path = ''lodash_merge'', external = False, namespace = Some ''dep''\<rparr>))"
    by (simp add: f)
  moreover from plugin_onResolve_entry [OF a' b' c' g' h'] y r
  have "plugin_onResolve demo_env_offline (demo_args ''normalize.css'' []) =
     ([ResolverCall False ''normalize.css'' (ImporterString []) None None],
      Inr (Some \<lparr>path = ''normalize_css'', external = False, namespace = Some ''dep''\<rparr>))"
    by (simp add: f')
  ultimately show ?thesis by simp
qed

subsection \<open>Classifying what the resolver found\<close>

text \<open>
  C4. \<open>resolveResult\<close> sorts every resolver output into exactly one of three kinds,
  in this order: an output that starts with the browser-external marker gives a
  browser stub in namespace \<open>browser-external\<close> that carries the original specifier;
  otherwise an external URL gives an external result that carries the URL; otherwise
  the output is passed through \<open>path.resolve\<close> and gives a concrete result that
  carries that path.
\<close>

theorem resolveResult_classification:
  "(prefix (browserExternalId e) resolved \<longrightarrow>
      resolveResult e spec resolved =
        \<lparr>path = spec, external = False, namespace = Some ''browser-external''\<rparr>
      \<and> is_BrowserStub (resolveResult e spec resolved)
      \<and> \<not> is_External (resolveResult e spec resolved)
      \<and> \<not> is_Concrete (resolveResult e spec resolved))
   \<and> (\<not> prefix (browserExternalId e) resolved \<and> isExternalUrl e resolved \<longrightarrow>
      resolveResult e spec resolved = \<lparr>path = resolved, external = True, namespace = None\<rparr>
      \<and> is_External (resolveResult e spec resolved)
      \<and> \<not> is_BrowserStub (resolveResult e spec resolved)
      \<and> \<not> is_Concrete (resolveResult e spec resolved))
   \<and> (\<not> prefix (browserExternalId e) resolved \<and> \<not> isExternalUrl e resolved \<longrightarrow>
      resolveResult e spec resolved =
        \<lparr>path = path_resolve e resolved, external = False, namespace = None\<rparr>
      \<and> is_Concrete (resolveResult e spec resolved)
      \<and> \<not> is_BrowserStub (resolveResult e spec resolved)
      \<and> \<not> is_External (resolveResult e spec resolved))"
  by (simp add: resolveResult_def is_BrowserStub_def is_External_def is_Concrete_def)

theorem resolveResult_classification_witness:
  "resolveResult demo_env ''fs'' ''__vite-browser-external:fs'' =
     \<lparr>path = ''fs'', external = False, namespace = Some ''browser-external''\<rparr>
   \<and> resolveResult demo_env ''remote'' ''https://cdn.example.com/remote.js'' =
     \<lparr>path = ''https://cdn.example.com/remote.js'', external = True, namespace = None\<rparr>
   \<and> resolveResult demo_env ''react'' ''node_modules/react/index.js'' =
     \<lparr>path = ''/app/node_modules/react/index.js'', external = False, namespace = None\<rparr>"
proof -
  have b: "browserExternalId demo_env = ''__vite-browser-external''"
    and u1: "isExternalUrl demo_env ''https://cdn.example.com/remote.js''"
    and u2: "\<not> isExternalUrl demo_env ''node_modules/react/index.js''"
    and p: "path_resolve demo_env ''node_modules/react/index.js'' = ''/app/node_modules/react/index.js''"
    by (simp_all add: demo_env_def)
  from resolveResult_classification [of demo_env "''__vite-browser-external:fs''" "''fs''"]
    resolveResult_classification [of demo_env "''https://cdn.example.com/remote.js''" "''remote''"]
    resolveResult_classification [of demo_env "''node_modules/react/index.js''" "''react''"]
  show ?thesis
    by (simp add: b u1 u2 p)
qed

subsection \<open>The proxy module of an entry\<close>



text \<open>
  C6. For a registered entry with metadata the load succeeds and its source text
  holds, between double quotes, the import path: the normalized path of the entry file
  relative to the root directory, with \<open>./\<close> put in front or not, so that it starts
  with \<open>./\<close> or \<open>../\<close> or is exactly \<open>.\<close>. When that relative path is \<open>.\<close>, the
  import path is exactly \<open>.\<close> and not \<open>./\<close>; this is the case of an entry file equal to
  the root directory, for which \<open>path.relative\<close> gives the empty string and
  \<open>normalizePath\<close> turns it into \<open>.\<close>.
\<close>

theorem dep_onLoad_import_path:
  assumes "qualified_deps e eid = Some entryFile"
    and "exportsData e eid = Some d"
    and "rel = normalizePath e (path_relative e (root e) entryFile)"
  shows "\<exists>r. dep_onLoad e eid = Inr r
    \<and> contents r = proxy_contents (relativePath e entryFile) d
    \<and> sublist (quoted (relativePath e entryFile)) (contents r)
    \<and> (relativePath e entryFile = rel \<or> relativePath e entryFile = ''./'' @ rel)
    \<and> (prefix ''./'' (relativePath e entryFile) \<or> prefix ''../'' (relativePath e entryFile)
        \<or> relativePath e entryFile = ''.'')
    \<and> (rel = ''.'' \<longrightarrow> relativePath e entryFile = ''.'' \<and> relativePath e entryFile \<noteq> ''./'')
    \<and> (entryFile = root e \<and> path_relative e (root e) (root e) = [] \<and> normalizePath e [] = ''.''
          \<longrightarrow> relativePath e entryFile = ''.'')"
proof -
  have "relativePath e entryFile = rel \<or> relativePath e entryFile = ''./'' @ rel"
    by (simp add: relativePath_def assms(3) Let_def)
  moreover have "prefix ''./'' (relativePath e entryFile) \<or> prefix ''../'' (relativePath e entryFile)
        \<or> relativePath e entryFile = ''.''"
    by (simp add: relativePath_def Let_def)
  moreover have "rel = ''.'' \<longrightarrow> relativePath e entryFile = ''.''"
    by (simp add: relativePath_def assms(3) Let_def)
  moreover have "entryFile = root e \<and> path_relative e (root e) (root e) = [] \<and> normalizePath e [] = ''.''
          \<longrightarrow> relativePath e entryFile = ''.''"
    by (simp add: relativePath_def Let_def)
  moreover have "sublist (quoted (relativePath e entryFile)) (proxy_contents (relativePath e entryFile) d)"
    by (rule quoted_in_contents)
  ultimately show ?thesis
    using assms(1,2) by (simp add: dep_onLoad_found)
qed

theorem dep_onLoad_import_path_witness:
  "(\<exists>r. dep_onLoad demo_env ''self'' = Inr r
      \<and> contents r = ''export default require('' @ quoted ''.'' @ '');'')
   \<and> relativePath demo_env ''/app'' = ''.''
   \<and> relativePath demo_env ''/app/node_modules/vue/dist/vue.mjs'' = ''./node_modules/vue/dist/vue.mjs''"
proof -
  have q: "qualified_deps demo_env ''self'' = Some ''/app''"
    and x: "exportsData demo_env ''self'' =
      Some \<lparr>data_imports = [], data_exports = [], hasReExports = False\<rparr>"
    and n: "''.'' = normalizePath demo_env (path_relative demo_env (root demo_env) ''/app'')"
    and q': "qualified_deps demo_env ''vue'' = Some ''/app/node_modules/vue/dist/vue.mjs''"
    and x': "exportsData demo_env ''vue'' =
      Some \<lparr>data_imports = [''@vue/runtime-dom''], data_exports = [''default'', ''foo''],
            hasReExports = False\<rparr>"
    and n': "''node_modules/vue/dist/vue.mjs'' =
      normalizePath demo_env
        (path_relative demo_env (root demo_env) ''/app/node_modules/vue/dist/vue.mjs'')"
    by (simp_all add: demo_env_def root_def demo_relative_def)
  from dep_onLoad_import_path [OF q x n]
  have "\<exists>r. dep_onLoad demo_env ''self'' = Inr r
      \<and> contents r = ''export default require('' @ quoted ''.'' @ '');''"
    by (auto simp: proxy_contents_def cjs_statement_def)
  moreover from dep_onLoad_import_path [OF q x n]
  have "relativePath demo_env ''/app'' = ''.''"
    by blast
  moreover from dep_onLoad_import_path [OF q' x' n']
  have "relativePath demo_env ''/app/node_modules/vue/dist/vue.mjs'' = ''./node_modules/vue/dist/vue.mjs''"
    by auto
  ultimately show ?thesis by simp
qed

text \<open>
  C7. For a registered entry whose metadata has no import and no exported name, the
  load succeeds and its source text is exactly one statement: the default export of
  \<open>require\<close> applied to the import path.
\<close>

theorem dep_onLoad_cjs:
  assumes "qualified_deps e eid = Some entryFile"
    and "exportsData e eid = Some d"
    and "data_imports d = []" and "data_exports d = []"
  shows "\<exists>r. dep_onLoad e eid = Inr r
    \<and> contents r = ''export default require('' @ quoted (relativePath e entryFile) @ '');''"
  using assms by (simp add: dep_onLoad_found proxy_contents_def cjs_statement_def)

theorem dep_onLoad_cjs_witness:
  "\<exists>r. dep_onLoad demo_env ''lodash_merge'' = Inr r
     \<and> contents r = ''export default require('' @ quoted ''./node_modules/lodash/merge.js'' @ '');''"
proof -
  have q: "qualified_deps demo_env ''lodash_merge'' = Some ''/app/node_modules/lodash/merge.js''"
    and x: "exportsData demo_env ''lodash_merge'' =
      Some \<lparr>data_imports = [], data_exports = [], hasReExports = False\<rparr>"
    by (simp_all add: demo_env_def)
  from dep_onLoad_cjs [OF q x] show ?thesis
    by (auto simp: demo_relativePath_lodash)
qed

text \<open>
  C8. A load in namespace \<open>dep\<close> of an id with no export metadata fails with a
  TypeError (from \<open>path.relative\<close> when the id is not registered either, from the
  destructuring otherwise); it returns no source text, and the plugin's answer to the
  load event is that failure.
\<close>

theorem dep_onLoad_missing_metadata:
  assumes "exportsData e eid = None"
  shows "(dep_onLoad e eid = Inl InvalidArgType \<or> dep_onLoad e eid = Inl NotIterable)
    \<and> (\<forall>r. dep_onLoad e eid \<noteq> Inr r)
    \<and> (\<exists>err. plugin_onLoad e ''dep'' eid = Inl err)"
  using assms by (auto simp: dep_onLoad_def plugin_onLoad_def split: option.splits)

theorem dep_onLoad_missing_metadata_witness:
  "dep_onLoad demo_env ''orphan'' = Inl NotIterable
   \<and> plugin_onLoad demo_env ''dep'' ''orphan'' = Inl NotIterable
   \<and> dep_onLoad demo_env ''unknown'' = Inl InvalidArgType"
proof -
  have x: "exportsData demo_env ''orphan'' = None"
    and q: "qualified_deps demo_env ''orphan'' = Some ''/app/node_modules/orphan/index.js''"
    and x': "exportsData demo_env ''unknown'' = None"
    and q': "qualified_deps demo_env ''unknown'' = None"
    by (simp_all add: demo_env_def)
  from dep_onLoad_missing_metadata [OF x] dep_onLoad_missing_metadata [OF x'] q q' x x'
  show ?thesis
    by (simp add: dep_onLoad_def plugin_onLoad_def)
qed

text \<open>
  C9. A load event in the namespace \<open>browser-external\<close> returns the empty string as
  contents, whatever the path: the callback itself does, and it is the callback that
  answers a load event of that namespace.
\<close>

theorem browser_external_load_empty:
  "contents (browser_external_onLoad p) = []
   \<and> plugin_onLoad e ''browser-external'' p = Inr (Some (browser_external_onLoad p))"
  by (simp add: browser_external_onLoad_def plugin_onLoad_def)

text \<open>
  C10. For a registered entry whose metadata has an import and no exported name, the
  load succeeds and its source text is the wildcard re-export statement alone, a line
  feed followed by \<open>export * from "<import path>"\<close>: it contains that statement and
  does not contain the default re-export statement
  \<open>import d from "<import path>";export default d;\<close> (\<open>exports[0]\<close> is
  \<open>undefined\<close>, which differs from \<open>'default'\<close>).
\<close>

theorem dep_onLoad_no_exports:
  assumes "qualified_deps e eid = Some entryFile"
    and "exportsData e eid = Some d"
    and "data_imports d \<noteq> []" and "data_exports d = []"
  shows "\<exists>r. dep_onLoad e eid = Inr r
    \<and> contents r =
        CHR 0x0A # ''export * from '' @ [CHR 0x22] @ relativePath e entryFile @ [CHR 0x22]
    \<and> sublist
        (CHR 0x0A # ''export * from '' @ [CHR 0x22] @ relativePath e entryFile @ [CHR 0x22])
        (contents r)
    \<and> \<not> sublist
        (''import d from '' @ [CHR 0x22] @ relativePath e entryFile @ [CHR 0x22]
          @ '';export default d;'')
        (contents r)"
proof -
  let ?rp = "relativePath e entryFile"
  have w: "wildcard_statement ?rp = CHR 0x0A # ''export * from '' @ [CHR 0x22] @ ?rp @ [CHR 0x22]"
    by (simp add: wildcard_statement_def quoted_def)
  have d: "default_statement ?rp =
      ''import d from '' @ [CHR 0x22] @ ?rp @ [CHR 0x22] @ '';export default d;''"
    by (simp add: default_statement_def quoted_def)
  have c: "proxy_contents ?rp d = wildcard_statement ?rp"
    using assms(3,4) by (simp add: proxy_contents_def)
  have n: "\<not> sublist (default_statement ?rp) (wildcard_statement ?rp)"
    by (rule default_not_in_wildcard)
  have "dep_onLoad e eid =
     Inr \<lparr>loader = Some (loader_of e entryFile), contents = proxy_contents ?rp d,
          resolveDir = Some (root e)\<rparr>"
    using assms(1,2) by (rule dep_onLoad_found)
  with c n show ?thesis
    unfolding w d by simp
qed

theorem dep_onLoad_no_exports_witness:
  "\<exists>r. dep_onLoad demo_env ''core-js'' = Inr r
     \<and> contents r =
         CHR 0x0A # ''export * from '' @ [CHR 0x22] @ ''./node_modules/core-js/index.js''
           @ [CHR 0x22]
     \<and> \<not> sublist
         (''import d from '' @ [CHR 0x22] @ ''./node_modules/core-js/index.js'' @ [CHR 0x22]
           @ '';export default d;'')
         (contents r)"
proof -
  have q: "qualified_deps demo_env ''core-js'' = Some ''/app/node_modules/core-js/index.js''"
    and x: "exportsData demo_env ''core-js'' =
      Some \<lparr>data_imports = [''./es''], data_exports = [], hasReExports = False\<rparr>"
    by (simp_all add: demo_env_def)
  from dep_onLoad_no_exports [OF q x] show ?thesis
    unfolding demo_relativePath_corejs by auto
qed

end
